theory Spec2Isabelle
  imports Main
begin

section \<open>Python values and the parts of the language the program relies on\<close>

text \<open>
  The values the program handles are the ones \<open>json.loads\<close> produces, together with
  \<open>None\<close> (which is also what JSON \<open>null\<close> decodes to). A dict is kept as the list of
  its items; keys of a decoded dict are unique, and lookup is \<open>map_of\<close>. Numbers are
  integers: a float takes the same branch as an int at every test of this program.
\<close>

datatype pyval =
    PNone
  | PBool bool
  | PInt int
  | PStr string
  | PList "pyval list"
  | PDict "(string \<times> pyval) list"

datatype exn = TypeError | KeyError | AttributeError | SystemExit int

text \<open>\<open>bool(v)\<close>, as used by \<open>if not v\<close>.\<close>

fun truthy :: "pyval \<Rightarrow> bool" where
  "truthy PNone = False"
| "truthy (PBool b) = b"
| "truthy (PInt n) = (n \<noteq> 0)"
| "truthy (PStr s) = (s \<noteq> [])"
| "truthy (PList xs) = (xs \<noteq> [])"
| "truthy (PDict kvs) = (kvs \<noteq> [])"

text \<open>\<open>isinstance(v, list)\<close>.\<close>

fun is_list :: "pyval \<Rightarrow> bool" where
  "is_list (PList xs) = True"
| "is_list v = False"

text \<open>\<open>k in s\<close> for two strings: \<open>k\<close> occurs in \<open>s\<close> as a contiguous piece.\<close>

fun str_contains :: "string \<Rightarrow> string \<Rightarrow> bool" where
  "str_contains k [] = (k = [])"
| "str_contains k (c # cs) = (take (length k) (c # cs) = k \<or> str_contains k cs)"

text \<open>
  \<open>k in v\<close> for a string \<open>k\<close>: key membership on a dict, element membership on a list,
  substring on a string, and \<open>TypeError\<close> on \<open>None\<close>, a bool or a number.
\<close>

fun py_contains :: "string \<Rightarrow> pyval \<Rightarrow> exn + bool" where
  "py_contains k (PDict kvs) = Inr (k \<in> set (map fst kvs))"
| "py_contains k (PList xs) = Inr (PStr k \<in> set xs)"
| "py_contains k (PStr s) = Inr (str_contains k s)"
| "py_contains k v = Inl TypeError"

text \<open>\<open>v[k]\<close> for a string \<open>k\<close>: only a dict can be indexed by a string.\<close>

fun py_getitem :: "pyval \<Rightarrow> string \<Rightarrow> exn + pyval" where
  "py_getitem (PDict kvs) k = (case map_of kvs k of Some v \<Rightarrow> Inr v | None \<Rightarrow> Inl KeyError)"
| "py_getitem v k = Inl TypeError"

text \<open>\<open>v.get(k, d)\<close>: only a dict has the method.\<close>

fun py_get :: "pyval \<Rightarrow> string \<Rightarrow> pyval \<Rightarrow> exn + pyval" where
  "py_get (PDict kvs) k d = Inr (case map_of kvs k of Some v \<Rightarrow> v | None \<Rightarrow> d)"
| "py_get v k d = Inl AttributeError"

text \<open>
  An f-string is kept as its pieces: \<open>Lit s\<close> is literal text (or a string that is
  interpolated), \<open>Fmt v\<close> stands for the text \<open>format(v)\<close> of an interpolated value.
\<close>

datatype piece = Lit string | Fmt pyval

type_synonym fstring = "piece list"

definition apostrophe :: string where
  "apostrophe = [CHR 0x27]"

section \<open>The HTTP library\<close>

text \<open>
  What the program uses of \<open>requests\<close>. A \<open>Response\<close> has a status code and a text
  (\<open>response_text\<close>);
  \<open>json r\<close> is what \<open>r.json()\<close> gives on that text, \<open>None\<close> when the text is not JSON
  and the call raises \<open>requests.exceptions.JSONDecodeError\<close>. That exception is at once
  a \<open>requests.RequestException\<close> (through \<open>InvalidJSONError\<close>) and a \<open>ValueError\<close>
  (through \<open>json.JSONDecodeError\<close>), so both kinds of handler in the program catch it.
\<close>

record response =
  status_code :: int
  response_text :: string
  json :: "pyval option"

text \<open>
  \<open>Response.__bool__\<close> returns \<open>self.ok\<close>, and \<open>ok\<close> is false exactly when
  \<open>raise_for_status\<close> raises, that is for \<open>400 <= status_code < 600\<close>.
\<close>

definition ok :: "response \<Rightarrow> bool" where
  "ok r = (\<not> (400 \<le> status_code r \<and> status_code r < 600))"

datatype http_method = GET | POST | PUT | DELETE

record request =
  request_method :: http_method
  url :: fstring
  request_headers :: "(string \<times> string) list"
  request_json :: "pyval option"

text \<open>
  A call of \<open>requests.get/post/put/delete\<close> either returns a response or raises a
  \<open>RequestException\<close>. The remote side is a parameter: it decides the outcome of a
  request from the requests sent before it.
\<close>

datatype outcome = Returns response | RequestException

type_synonym remote = "request list \<Rightarrow> request \<Rightarrow> outcome"

section \<open>Program state\<close>

text \<open>
  The calls of the view. \<open>Show_error message status_code expected_status error_detail\<close>
  carries what the specification calls the error descriptor: the observed status, the
  expected status and the detail.
\<close>

datatype view_call =
    Show_success fstring
  | Log_request http_method fstring "(string \<times> string) list" "pyval option"
  | Log_response "response option"
  | Show_error string "int option" "int option" pyval

fun is_error :: "view_call \<Rightarrow> bool" where
  "is_error (Show_error m st ex d) = True"
| "is_error c = False"

text \<open>
  \<open>base_url\<close>, \<open>headers\<close> and \<open>folder_id\<close> are the attributes of the
  \<open>Document360Model\<close> object; \<open>sent\<close> is the trace of requests handed to the HTTP
  library; \<open>console\<close> is the trace of calls of the \<open>Document360View\<close> methods. These
  methods only print and raise nothing; a call is recorded with its arguments, the text
  printed from them is not modelled.
\<close>

record pstate =
  base_url :: string
  headers :: "(string \<times> string) list"
  folder_id :: pyval
  sent :: "request list"
  console :: "view_call list"

text \<open>The \<open>show_error\<close> calls made so far, in order.\<close>

definition error_reports :: "pstate \<Rightarrow> view_call list" where
  "error_reports s = filter is_error (console s)"

definition send :: "remote \<Rightarrow> request \<Rightarrow> pstate \<Rightarrow> outcome \<times> pstate" where
  "send net rq s = (net (sent s) rq, s\<lparr>sent := sent s @ [rq]\<rparr>)"

section \<open>Document360Model\<close>

definition Document360Model_init :: "string \<Rightarrow> pstate" where
  "Document360Model_init api_token =
     \<lparr>base_url = ''https://apihub.document360.io/v2/Drive/Folders'',
      headers = [(''api_token'', api_token), (''Content-Type'', ''application/json'')],
      folder_id = PNone,
      sent = [],
      console = []\<rparr>"

definition get_request :: "pstate \<Rightarrow> request" where
  "get_request s =
     \<lparr>request_method = GET, url = [Lit (base_url s)], request_headers = headers s,
      request_json = None\<rparr>"

definition post_request :: "pstate \<Rightarrow> string \<Rightarrow> request" where
  "post_request s folder_name =
     \<lparr>request_method = POST, url = [Lit (base_url s)], request_headers = headers s,
      request_json = Some (PDict [(''name'', PStr folder_name)])\<rparr>"

definition put_request :: "pstate \<Rightarrow> pyval \<Rightarrow> string \<Rightarrow> request" where
  "put_request s fid new_name =
     \<lparr>request_method = PUT, url = [Lit (base_url s), Lit ''/'', Fmt fid], request_headers = headers s,
      request_json = Some (PDict [(''name'', PStr new_name)])\<rparr>"

definition delete_request :: "pstate \<Rightarrow> pyval \<Rightarrow> request" where
  "delete_request s fid =
     \<lparr>request_method = DELETE, url = [Lit (base_url s), Lit ''/'', Fmt fid], request_headers = headers s,
      request_json = None\<rparr>"

text \<open>
  Each method returns its tuple, or the exception that leaves it, and the new state.
  \<open>except requests.RequestException\<close> covers the request and \<open>response.json()\<close>;
  nothing else is caught.
\<close>

definition Document360Model_get_all_folders ::
  "remote \<Rightarrow> pstate \<Rightarrow> (exn + pyval \<times> response option) \<times> pstate" where
  "Document360Model_get_all_folders net s =
     (case send net (get_request s) s of
        (RequestException, s1) \<Rightarrow> (Inr (PNone, None), s1)
      | (Returns r, s1) \<Rightarrow>
          if status_code r = 200 then
            (case json r of
               None \<Rightarrow> (Inr (PNone, None), s1)
             | Some data \<Rightarrow>
                 if is_list data then (Inr (data, Some r), s1)
                 else (Inr (PNone, Some r), s1))
          else (Inr (PNone, Some r), s1))"

definition Document360Model_create_folder ::
  "remote \<Rightarrow> string \<Rightarrow> pstate \<Rightarrow> (exn + pyval \<times> response option) \<times> pstate" where
  "Document360Model_create_folder net folder_name s =
     (case send net (post_request s folder_name) s of
        (RequestException, s1) \<Rightarrow> (Inr (PNone, None), s1)
      | (Returns r, s1) \<Rightarrow>
          if status_code r = 201 then
            (case json r of
               None \<Rightarrow> (Inr (PNone, None), s1)
             | Some response_data \<Rightarrow>
                 (case py_contains ''id'' response_data of
                    Inl e \<Rightarrow> (Inl e, s1)
                  | Inr True \<Rightarrow>
                      (case py_getitem response_data ''id'' of
                         Inl e \<Rightarrow> (Inl e, s1)
                       | Inr v \<Rightarrow> (Inr (v, Some r), s1\<lparr>folder_id := v\<rparr>))
                  | Inr False \<Rightarrow> (Inr (PNone, Some r), s1)))
          else (Inr (PNone, Some r), s1))"

definition Document360Model_update_folder ::
  "remote \<Rightarrow> pyval \<Rightarrow> string \<Rightarrow> pstate \<Rightarrow> (exn + bool \<times> response option) \<times> pstate" where
  "Document360Model_update_folder net fid new_name s =
     (if \<not> truthy fid then (Inr (False, None), s)
      else
        (case send net (put_request s fid new_name) s of
           (RequestException, s1) \<Rightarrow> (Inr (False, None), s1)
         | (Returns r, s1) \<Rightarrow> (Inr (status_code r = 200, Some r), s1)))"

definition Document360Model_delete_folder ::
  "remote \<Rightarrow> pyval \<Rightarrow> pstate \<Rightarrow> (exn + bool \<times> response option) \<times> pstate" where
  "Document360Model_delete_folder net fid s =
     (if \<not> truthy fid then (Inr (False, None), s)
      else
        (case send net (delete_request s fid) s of
           (RequestException, s1) \<Rightarrow> (Inr (False, None), s1)
         | (Returns r, s1) \<Rightarrow> (Inr (status_code r = 204, Some r), s1)))"

section \<open>Document360View\<close>

definition show_success :: "fstring \<Rightarrow> pstate \<Rightarrow> pstate" where
  "show_success message s = s\<lparr>console := console s @ [Show_success message]\<rparr>"

definition log_request ::
  "http_method \<Rightarrow> fstring \<Rightarrow> (string \<times> string) list \<Rightarrow> pyval option \<Rightarrow> pstate \<Rightarrow> pstate" where
  "log_request m u h b s = s\<lparr>console := console s @ [Log_request m u h b]\<rparr>"

definition log_response :: "response option \<Rightarrow> pstate \<Rightarrow> pstate" where
  "log_response r s = s\<lparr>console := console s @ [Log_response r]\<rparr>"

definition show_error ::
  "string \<Rightarrow> int option \<Rightarrow> int option \<Rightarrow> pyval \<Rightarrow> pstate \<Rightarrow> pstate" where
  "show_error message status expected_status error_detail s =
     s\<lparr>console := console s @ [Show_error message status expected_status error_detail]\<rparr>"

section \<open>Document360Presenter\<close>

text \<open>
  The block that every presenter method repeats on its failure path:
  \<^verbatim>\<open>
  error_detail = None
  if response:
      try:
          error_detail = response.json().get('error', 'No error details provided')
      except ValueError:
          error_detail = response.text
  \<close>
  and the argument \<open>response.status_code if response else None\<close>. The test
  \<open>if response\<close> on an \<open>Optional[Response]\<close> passes when the value is not \<open>None\<close>
  and \<open>bool\<close> of the response, which is \<open>ok\<close>, holds.
\<close>

definition error_detail_of :: "response option \<Rightarrow> exn + pyval" where
  "error_detail_of response =
     (case response of
        None \<Rightarrow> Inr PNone
      | Some r \<Rightarrow>
          if ok r then
            (case json r of
               None \<Rightarrow> Inr (PStr (response_text r))
             | Some v \<Rightarrow> py_get v ''error'' (PStr ''No error details provided''))
          else Inr PNone)"

definition status_code_of :: "response option \<Rightarrow> int option" where
  "status_code_of response =
     (case response of
        None \<Rightarrow> None
      | Some r \<Rightarrow> if ok r then Some (status_code r) else None)"

definition Document360Presenter_get_all_folders ::
  "remote \<Rightarrow> pstate \<Rightarrow> (exn + pyval) \<times> pstate" where
  "Document360Presenter_get_all_folders net s =
     (let s1 = show_success [Lit ''Task 1: Fetching all folders''] s;
          s2 = log_request GET [Lit (base_url s1)] (headers s1) None s1
      in case Document360Model_get_all_folders net s2 of
           (Inl e, s3) \<Rightarrow> (Inl e, s3)
         | (Inr (data, response), s3) \<Rightarrow>
             let s4 = log_response response s3 in
             if data = PNone then
               (case error_detail_of response of
                  Inl e \<Rightarrow> (Inl e, s4)
                | Inr error_detail \<Rightarrow>
                    (Inr PNone,
                     show_error ''Failed to fetch folders'' (status_code_of response)
                       (Some 200) error_detail s4))
             else (Inr data, s4))"

definition Document360Presenter_create_folder ::
  "remote \<Rightarrow> string \<Rightarrow> pstate \<Rightarrow> (exn + pyval) \<times> pstate" where
  "Document360Presenter_create_folder net folder_name s =
     (let s1 = show_success [Lit ''Task 2: Creating a new folder''] s;
          s2 = log_request POST [Lit (base_url s1)] (headers s1)
                 (Some (PDict [(''name'', PStr folder_name)])) s1
      in case Document360Model_create_folder net folder_name s2 of
           (Inl e, s3) \<Rightarrow> (Inl e, s3)
         | (Inr (fid, response), s3) \<Rightarrow>
             let s4 = log_response response s3 in
             if fid = PNone then
               (case error_detail_of response of
                  Inl e \<Rightarrow> (Inl e, s4)
                | Inr error_detail \<Rightarrow>
                    (Inr PNone,
                     show_error ''Failed to create folder'' (status_code_of response)
                       (Some 201) error_detail s4))
             else
               (Inr fid,
                show_success
                  [Lit ''Folder '', Lit apostrophe, Lit folder_name, Lit apostrophe,
                   Lit '' created with ID: '', Fmt fid] s4))"

definition Document360Presenter_update_folder ::
  "remote \<Rightarrow> pyval \<Rightarrow> string \<Rightarrow> pstate \<Rightarrow> (exn + bool) \<times> pstate" where
  "Document360Presenter_update_folder net fid new_name s =
     (let s1 = show_success [Lit ''Task 3: Updating folder name''] s;
          s2 = log_request PUT [Lit (base_url s1), Lit ''/'', Fmt fid] (headers s1)
                 (Some (PDict [(''name'', PStr new_name)])) s1
      in case Document360Model_update_folder net fid new_name s2 of
           (Inl e, s3) \<Rightarrow> (Inl e, s3)
         | (Inr (success, response), s3) \<Rightarrow>
             let s4 = log_response response s3 in
             if \<not> success then
               (case error_detail_of response of
                  Inl e \<Rightarrow> (Inl e, s4)
                | Inr error_detail \<Rightarrow>
                    (Inr False,
                     show_error ''Failed to update folder'' (status_code_of response)
                       (Some 200) error_detail s4))
             else
               (Inr True,
                show_success
                  [Lit ''Folder ID '', Fmt fid, Lit '' renamed to '', Lit apostrophe, Lit new_name,
                   Lit apostrophe] s4))"

definition Document360Presenter_delete_folder ::
  "remote \<Rightarrow> pyval \<Rightarrow> pstate \<Rightarrow> (exn + bool) \<times> pstate" where
  "Document360Presenter_delete_folder net fid s =
     (let s1 = show_success [Lit ''Task 4: Deleting folder''] s;
          s2 = log_request DELETE [Lit (base_url s1), Lit ''/'', Fmt fid] (headers s1) None s1
      in case Document360Model_delete_folder net fid s2 of
           (Inl e, s3) \<Rightarrow> (Inl e, s3)
         | (Inr (success, response), s3) \<Rightarrow>
             let s4 = log_response response s3 in
             if \<not> success then
               (case error_detail_of response of
                  Inl e \<Rightarrow> (Inl e, s4)
                | Inr error_detail \<Rightarrow>
                    (Inr False,
                     show_error ''Failed to delete folder'' (status_code_of response)
                       (Some 204) error_detail s4))
             else
               (Inr True, show_success [Lit ''Folder ID '', Fmt fid, Lit '' deleted''] s4))"

section \<open>main\<close>

text \<open>
  The token literal of the source and the two \<open>str(uuid4())\<close> draws are parameters. The
  result is \<open>Inr ()\<close> when \<open>main\<close> returns and the exception that leaves it otherwise;
  \<open>sys.exit(1)\<close> raises \<open>SystemExit(1)\<close>.
\<close>

definition main :: "remote \<Rightarrow> string \<Rightarrow> string \<Rightarrow> string \<Rightarrow> (exn + unit) \<times> pstate" where
  "main net api_token uuid1 uuid2 =
     (case Document360Presenter_get_all_folders net (Document360Model_init api_token) of
        (Inl e, s1) \<Rightarrow> (Inl e, s1)
      | (Inr folders, s1) \<Rightarrow>
          if \<not> truthy folders then
            (Inl (SystemExit 1),
             show_error ''Failed to fetch folders. Exiting.'' None None PNone s1)
          else
            (case Document360Presenter_create_folder net (''TestFolder_'' @ take 8 uuid1) s1 of
               (Inl e, s2) \<Rightarrow> (Inl e, s2)
             | (Inr fid, s2) \<Rightarrow>
                 if \<not> truthy fid then
                   (Inl (SystemExit 1),
                    show_error ''Failed to create folder. Exiting.'' None None PNone s2)
                 else
                   (case Document360Presenter_update_folder net fid
                           (''UpdatedFolder_'' @ take 8 uuid2) s2 of
                      (Inl e, s3) \<Rightarrow> (Inl e, s3)
                    | (Inr updated, s3) \<Rightarrow>
                        if \<not> updated then
                          (Inl (SystemExit 1),
                           show_error ''Failed to update folder. Exiting.'' None None PNone s3)
                        else
                          (case Document360Presenter_delete_folder net fid s3 of
                             (Inl e, s4) \<Rightarrow> (Inl e, s4)
                           | (Inr deleted, s4) \<Rightarrow>
                               if \<not> deleted then
                                 (Inl (SystemExit 1),
                                  show_error ''Failed to delete folder. Exiting.''
                                    None None PNone s4)
                               else (Inr (), s4)))))"

text \<open>
  The exit code of the process: 0 when \<open>main\<close> returns, the argument of \<open>sys.exit\<close>,
  and 1 when any other exception reaches the top level.
\<close>

fun exit_code :: "exn + unit \<Rightarrow> int" where
  "exit_code (Inr u) = 0"
| "exit_code (Inl (SystemExit n)) = n"
| "exit_code (Inl e) = 1"

section \<open>Reading a report, and remote sides used as examples\<close>

text \<open>The detail of a \<open>show_error\<close> call.\<close>

fun detail_of :: "view_call \<Rightarrow> pyval" where
  "detail_of (Show_error m st ex d) = d"
| "detail_of c = PNone"

text \<open>A remote side that answers every request with the same response.\<close>

definition responding :: "response \<Rightarrow> remote" where
  "responding r h rq = Returns r"

text \<open>A remote side that never answers: every request ends in a transport fault.\<close>

definition unreachable :: remote where
  "unreachable h rq = RequestException"

text \<open>A remote side that answers by the method of the request.\<close>

definition by_method :: "response \<Rightarrow> response \<Rightarrow> response \<Rightarrow> response \<Rightarrow> remote" where
  "by_method r_get r_post r_put r_delete h rq =
     (case request_method rq of
        GET \<Rightarrow> Returns r_get
      | POST \<Rightarrow> Returns r_post
      | PUT \<Rightarrow> Returns r_put
      | DELETE \<Rightarrow> Returns r_delete)"

definition empty_list_200 :: response where
  "empty_list_200 = \<lparr>status_code = 200, response_text = ''[]'', json = Some (PList [])\<rparr>"

definition one_folder_200 :: response where
  \<open>one_folder_200 =
     \<lparr>status_code = 200, response_text = ''[{"id":"f0"}]'',
      json = Some (PList [PDict [(''id'', PStr ''f0'')]])\<rparr>\<close>

definition not_a_list_200 :: response where
  \<open>not_a_list_200 =
     \<lparr>status_code = 200, response_text = ''{"not":"a list"}'',
      json = Some (PDict [(''not'', PStr ''a list'')])\<rparr>\<close>

definition created_f1_201 :: response where
  \<open>created_f1_201 =
     \<lparr>status_code = 201, response_text = ''{"id":"f1"}'',
      json = Some (PDict [(''id'', PStr ''f1'')])\<rparr>\<close>

definition created_abc123_201 :: response where
  \<open>created_abc123_201 =
     \<lparr>status_code = 201, response_text = ''{"id":"abc123"}'',
      json = Some (PDict [(''id'', PStr ''abc123'')])\<rparr>\<close>

definition empty_object_201 :: response where
  "empty_object_201 = \<lparr>status_code = 201, response_text = ''{}'', json = Some (PDict [])\<rparr>"

definition empty_object_202 :: response where
  "empty_object_202 = \<lparr>status_code = 202, response_text = ''{}'', json = Some (PDict [])\<rparr>"

definition null_201 :: response where
  "null_201 = \<lparr>status_code = 201, response_text = ''null'', json = Some PNone\<rparr>"

definition not_json_200 :: response where
  "not_json_200 = \<lparr>status_code = 200, response_text = ''<html>'', json = None\<rparr>"

definition not_json_201 :: response where
  "not_json_201 = \<lparr>status_code = 201, response_text = ''<html>'', json = None\<rparr>"

definition updated_200 :: response where
  "updated_200 = \<lparr>status_code = 200, response_text = ''{}'', json = Some (PDict [])\<rparr>"

definition deleted_204 :: response where
  "deleted_204 = \<lparr>status_code = 204, response_text = [], json = None\<rparr>"

definition duplicate_name_400 :: response where
  \<open>duplicate_name_400 =
     \<lparr>status_code = 400, response_text = ''{"error":"duplicate name"}'',
      json = Some (PDict [(''error'', PStr ''duplicate name'')])\<rparr>\<close>

definition not_found_404 :: response where
  \<open>not_found_404 =
     \<lparr>status_code = 404, response_text = ''{"error":"Folder not found"}'',
      json = Some (PDict [(''error'', PStr ''Folder not found'')])\<rparr>\<close>

definition internal_error_500 :: response where
  "internal_error_500 =
     \<lparr>status_code = 500, response_text = ''internal error'', json = None\<rparr>"

section \<open>Unfolding\<close>

lemmas view_defs = show_success_def log_request_def log_response_def show_error_def

lemmas model_defs =
  Document360Model_get_all_folders_def Document360Model_create_folder_def
  Document360Model_update_folder_def Document360Model_delete_folder_def send_def
  get_request_def post_request_def put_request_def delete_request_def

lemmas presenter_defs =
  Document360Presenter_get_all_folders_def Document360Presenter_create_folder_def
  Document360Presenter_update_folder_def Document360Presenter_delete_folder_def
  error_detail_of_def status_code_of_def

lemmas remote_defs = responding_def unreachable_def by_method_def

lemmas response_defs =
  empty_list_200_def one_folder_200_def not_a_list_200_def created_f1_201_def
  created_abc123_201_def empty_object_201_def empty_object_202_def null_201_def
  not_json_200_def not_json_201_def updated_200_def deleted_204_def
  duplicate_name_400_def not_found_404_def internal_error_500_def

section \<open>Facts about the Python operations\<close>

lemma py_contains_getitem:
  "py_contains k v = Inr True \<Longrightarrow> py_getitem v k = Inr x \<Longrightarrow>
     \<exists>kvs. v = PDict kvs \<and> map_of kvs k = Some x"
  by (cases v) (auto split: option.splits)

lemma py_get_exn: "py_get v k d = Inl e \<Longrightarrow> e = AttributeError"
  by (cases v) auto

lemma py_contains_exn: "py_contains k v = Inl e \<Longrightarrow> e = TypeError"
  by (cases v) auto

lemma py_getitem_exn: "py_getitem v k = Inl e \<Longrightarrow> e = TypeError \<or> e = KeyError"
  by (cases v) (auto split: option.splits)

lemma error_detail_of_exn: "error_detail_of response = Inl e \<Longrightarrow> e = AttributeError"
  by (auto simp: error_detail_of_def split: option.splits if_splits dest: py_get_exn)

section \<open>The pipeline of main\<close>

text \<open>What one presenter step does to the trace of requests.\<close>

lemma get_all_folders_sent:
  "sent (snd (Document360Presenter_get_all_folders net s)) = sent s @ [get_request s]"
  by (simp add: presenter_defs model_defs view_defs Let_def
      split: outcome.split option.split sum.split)

lemma create_folder_sent:
  "sent (snd (Document360Presenter_create_folder net nm s)) = sent s @ [post_request s nm]"
  by (simp add: presenter_defs model_defs view_defs Let_def
      split: outcome.split option.split sum.split bool.split)

lemma update_folder_sent:
  "truthy fid \<Longrightarrow>
   sent (snd (Document360Presenter_update_folder net fid nm s)) = sent s @ [put_request s fid nm]"
  by (simp add: presenter_defs model_defs view_defs Let_def
      split: outcome.split option.split sum.split)

lemma delete_folder_sent:
  "truthy fid \<Longrightarrow>
   sent (snd (Document360Presenter_delete_folder net fid s)) = sent s @ [delete_request s fid]"
  by (simp add: presenter_defs model_defs view_defs Let_def
      split: outcome.split option.split sum.split)

lemma request_methods [simp]:
  "request_method (get_request s) = GET" "request_method (post_request s nm) = POST"
  "request_method (put_request s fid nm) = PUT" "request_method (delete_request s fid) = DELETE"
  by (simp_all add: get_request_def post_request_def put_request_def delete_request_def)

text \<open>An exception that leaves a presenter step is not a \<open>SystemExit\<close>: the exit code is 1.\<close>

lemma get_all_folders_exn:
  "fst (Document360Presenter_get_all_folders net s) = Inl e \<Longrightarrow> exit_code (Inl e) = 1"
  by (auto simp: Document360Presenter_get_all_folders_def Document360Model_get_all_folders_def
      Let_def split: prod.splits sum.splits if_splits outcome.splits option.splits
      dest!: error_detail_of_exn)

lemma create_folder_exn:
  "fst (Document360Presenter_create_folder net nm s) = Inl e \<Longrightarrow> exit_code (Inl e) = 1"
  by (auto simp: Document360Presenter_create_folder_def Document360Model_create_folder_def
      Let_def split: prod.splits sum.splits if_splits outcome.splits option.splits bool.splits
      dest!: error_detail_of_exn py_contains_exn py_getitem_exn)

lemma update_folder_exn:
  "fst (Document360Presenter_update_folder net fid nm s) = Inl e \<Longrightarrow> exit_code (Inl e) = 1"
  by (auto simp: Document360Presenter_update_folder_def Document360Model_update_folder_def
      Let_def split: prod.splits sum.splits if_splits outcome.splits
      dest!: error_detail_of_exn)

lemma delete_folder_exn:
  "fst (Document360Presenter_delete_folder net fid s) = Inl e \<Longrightarrow> exit_code (Inl e) = 1"
  by (auto simp: Document360Presenter_delete_folder_def Document360Model_delete_folder_def
      Let_def split: prod.splits sum.splits if_splits outcome.splits
      dest!: error_detail_of_exn)

lemma sent_show_error [simp]: "sent (show_error m st ex d s) = sent s"
  by (simp add: show_error_def)

text \<open>
  The pipeline is fail-fast. Either \<open>main\<close> returns, and then the four requests were sent
  in order; or it ends with exit code 1, and the requests sent are a proper start of the
  pipeline or all of it (when Delete is the step that fails).
\<close>

lemma main_halts_at_first_failure:
  "(fst (main net tok u1 u2) = Inr () \<and>
      map request_method (sent (snd (main net tok u1 u2))) = [GET, POST, PUT, DELETE])
   \<or> (exit_code (fst (main net tok u1 u2)) = 1 \<and>
      map request_method (sent (snd (main net tok u1 u2)))
        \<in> {[GET], [GET, POST], [GET, POST, PUT], [GET, POST, PUT, DELETE]})"
proof -
  obtain r1 s1 where
    p1: "Document360Presenter_get_all_folders net (Document360Model_init tok) = (r1, s1)"
    by force
  have sent1: "map request_method (sent s1) = [GET]"
    using get_all_folders_sent [of net "Document360Model_init tok"] p1
    by (simp add: Document360Model_init_def)
  show ?thesis
  proof (cases r1)
    case (Inl e)
    with p1 have "main net tok u1 u2 = (Inl e, s1)"
      by (simp add: main_def)
    moreover have "exit_code (Inl e) = 1"
      using get_all_folders_exn [of net "Document360Model_init tok" e] p1 Inl by simp
    ultimately show ?thesis using sent1 by simp
  next
    case (Inr folders)
    note r1 = Inr
    show ?thesis
    proof (cases "truthy folders")
      case False
      with p1 r1 show ?thesis using sent1 by (simp add: main_def)
    next
      case True
      note t1 = True
      obtain r2 s2 where
        p2: "Document360Presenter_create_folder net (''TestFolder_'' @ take 8 u1) s1 = (r2, s2)"
        by force
      have sent2: "map request_method (sent s2) = [GET, POST]"
        using create_folder_sent [of net "''TestFolder_'' @ take 8 u1" s1] p2 sent1 by simp
      show ?thesis
      proof (cases r2)
        case (Inl e)
        with p1 r1 t1 p2 have "main net tok u1 u2 = (Inl e, s2)"
          by (simp add: main_def)
        moreover have "exit_code (Inl e) = 1"
          using create_folder_exn [of net "''TestFolder_'' @ take 8 u1" s1 e] p2 Inl by simp
        ultimately show ?thesis using sent2 by simp
      next
        case (Inr fid)
        note r2 = Inr
        show ?thesis
        proof (cases "truthy fid")
          case False
          with p1 r1 t1 p2 r2 show ?thesis using sent2 by (simp add: main_def)
        next
          case True
          note t2 = True
          obtain r3 s3 where
            p3: "Document360Presenter_update_folder net fid (''UpdatedFolder_'' @ take 8 u2) s2
                   = (r3, s3)"
            by force
          have sent3: "map request_method (sent s3) = [GET, POST, PUT]"
            using update_folder_sent [OF t2, of net "''UpdatedFolder_'' @ take 8 u2" s2] p3 sent2
            by simp
          show ?thesis
          proof (cases r3)
            case (Inl e)
            with p1 r1 t1 p2 r2 t2 p3 have "main net tok u1 u2 = (Inl e, s3)"
              by (simp add: main_def)
            moreover have "exit_code (Inl e) = 1"
              using update_folder_exn [of net fid "''UpdatedFolder_'' @ take 8 u2" s2 e] p3 Inl
              by simp
            ultimately show ?thesis using sent3 by simp
          next
            case (Inr updated)
            note r3 = Inr
            show ?thesis
            proof (cases updated)
              case False
              with p1 r1 t1 p2 r2 t2 p3 r3 show ?thesis using sent3 by (simp add: main_def)
            next
              case True
              note t3 = True
              obtain r4 s4 where
                p4: "Document360Presenter_delete_folder net fid s3 = (r4, s4)"
                by force
              have sent4: "map request_method (sent s4) = [GET, POST, PUT, DELETE]"
                using delete_folder_sent [OF t2, of net s3] p4 sent3 by simp
              show ?thesis
              proof (cases r4)
                case (Inl e)
                with p1 r1 t1 p2 r2 t2 p3 r3 t3 p4 have "main net tok u1 u2 = (Inl e, s4)"
                  by (simp add: main_def)
                moreover have "exit_code (Inl e) = 1"
                  using delete_folder_exn [of net fid s3 e] p4 Inl by simp
                ultimately show ?thesis using sent4 by simp
              next
                case (Inr deleted)
                with p1 r1 t1 p2 r2 t2 p3 r3 t3 p4 show ?thesis using sent4
                  by (cases deleted) (simp_all add: main_def)
              qed
            qed
          qed
        qed
      qed
    qed
  qed
qed

text \<open>
  A run in which every step succeeds: the list has one folder, the folder is created,
  renamed and deleted. All four requests are sent, no error is shown, and the exit code
  is 0.
\<close>

lemma main_one_folder_exits_0:
  "exit_code (fst (main (by_method one_folder_200 created_f1_201 updated_200 deleted_204)
       tok u1 u2)) = 0
   \<and> map request_method (sent (snd (main (by_method one_folder_200 created_f1_201 updated_200
         deleted_204) tok u1 u2))) = [GET, POST, PUT, DELETE]
   \<and> error_reports (snd (main (by_method one_folder_200 created_f1_201 updated_200
         deleted_204) tok u1 u2)) = []"
  by (simp add: main_def presenter_defs model_defs view_defs Document360Model_init_def
      remote_defs response_defs error_reports_def ok_def)

text \<open>
  C1. The end-to-end run of the specification: List answers 200 with the empty array,
  Create answers 201 with an id, Update answers 200 and Delete answers 204. The claim is
  that all four steps are reported as successes and the exit code is 0. In \<open>main\<close> the
  test \<open>if not folders\<close> is also true of the empty list, which the presenter has just
  returned as a success: the run stops after the GET request, shows
  \<open>Failed to fetch folders. Exiting.\<close> and exits with code 1.
\<close>

theorem main_empty_list_exits_1:
  "exit_code (fst (main (by_method empty_list_200 created_f1_201 updated_200 deleted_204)
       tok u1 u2)) = 1
   \<and> map request_method (sent (snd (main (by_method empty_list_200 created_f1_201 updated_200
         deleted_204) tok u1 u2))) = [GET]
   \<and> error_reports (snd (main (by_method empty_list_200 created_f1_201 updated_200
         deleted_204) tok u1 u2))
       = [Show_error ''Failed to fetch folders. Exiting.'' None None PNone]"
  by (simp add: main_def presenter_defs model_defs view_defs Document360Model_init_def
      remote_defs response_defs error_reports_def)

text \<open>
  C7. The failing run of the specification: List succeeds, Create answers 400 with
  \<open>{"error":"duplicate name"}\<close>. The claim is that the pipeline halts before Update and
  Delete, exits with a non-zero code, and reports the failure with the detail
  \<open>duplicate name\<close>. The run does halt after the POST request with \<open>SystemExit(1)\<close>;
  but a response with status 400 is false under \<open>if response\<close>, so the presenter skips
  the extraction of the detail and reports neither the observed status nor the detail.
\<close>

theorem main_create_400_reports_no_detail:
  "fst (main (by_method one_folder_200 duplicate_name_400 updated_200 deleted_204)
       tok u1 u2) = Inl (SystemExit 1)
   \<and> map request_method (sent (snd (main (by_method one_folder_200 duplicate_name_400 updated_200
         deleted_204) tok u1 u2))) = [GET, POST]
   \<and> error_reports (snd (main (by_method one_folder_200 duplicate_name_400 updated_200
         deleted_204) tok u1 u2))
       = [Show_error ''Failed to create folder'' None (Some 201) PNone,
          Show_error ''Failed to create folder. Exiting.'' None None PNone]"
  by (simp add: main_def presenter_defs model_defs view_defs Document360Model_init_def
      remote_defs response_defs error_reports_def ok_def)

section \<open>Failures of a single operation\<close>

text \<open>
  C4. When the request of an operation ends in a transport fault, the operation fails
  (\<open>None\<close> for List and Create, \<open>False\<close> for Update and Delete) and its report carries no
  observed status, the expected status of the operation (200, 201, 200, 204) and no
  detail. Update and Delete send a request only for an id that is not empty.
\<close>

theorem transport_failure_descriptor:
  "(net (sent s) (get_request s) = RequestException \<longrightarrow>
      Document360Presenter_get_all_folders net s =
        (Inr PNone,
         s\<lparr>sent := sent s @ [get_request s],
           console := console s @
             [Show_success [Lit ''Task 1: Fetching all folders''],
              Log_request GET [Lit (base_url s)] (headers s) None,
              Log_response None,
              Show_error ''Failed to fetch folders'' None (Some 200) PNone]\<rparr>))
   \<and> (net (sent s) (post_request s nm) = RequestException \<longrightarrow>
      Document360Presenter_create_folder net nm s =
        (Inr PNone,
         s\<lparr>sent := sent s @ [post_request s nm],
           console := console s @
             [Show_success [Lit ''Task 2: Creating a new folder''],
              Log_request POST [Lit (base_url s)] (headers s)
                (Some (PDict [(''name'', PStr nm)])),
              Log_response None,
              Show_error ''Failed to create folder'' None (Some 201) PNone]\<rparr>))
   \<and> (truthy fid \<and> net (sent s) (put_request s fid nm) = RequestException \<longrightarrow>
      Document360Presenter_update_folder net fid nm s =
        (Inr False,
         s\<lparr>sent := sent s @ [put_request s fid nm],
           console := console s @
             [Show_success [Lit ''Task 3: Updating folder name''],
              Log_request PUT [Lit (base_url s), Lit ''/'', Fmt fid] (headers s)
                (Some (PDict [(''name'', PStr nm)])),
              Log_response None,
              Show_error ''Failed to update folder'' None (Some 200) PNone]\<rparr>))
   \<and> (truthy fid \<and> net (sent s) (delete_request s fid) = RequestException \<longrightarrow>
      Document360Presenter_delete_folder net fid s =
        (Inr False,
         s\<lparr>sent := sent s @ [delete_request s fid],
           console := console s @
             [Show_success [Lit ''Task 4: Deleting folder''],
              Log_request DELETE [Lit (base_url s), Lit ''/'', Fmt fid] (headers s) None,
              Log_response None,
              Show_error ''Failed to delete folder'' None (Some 204) PNone]\<rparr>))"
  by (simp add: presenter_defs model_defs view_defs)

theorem transport_failure_descriptor_witness:
  "unreachable (sent (Document360Model_init ''t'')) (get_request (Document360Model_init ''t''))
     = RequestException
   \<and> unreachable (sent (Document360Model_init ''t''))
       (post_request (Document360Model_init ''t'') ''Test'') = RequestException
   \<and> truthy (PStr ''f1'')
   \<and> unreachable (sent (Document360Model_init ''t''))
       (put_request (Document360Model_init ''t'') (PStr ''f1'') ''Test'') = RequestException
   \<and> unreachable (sent (Document360Model_init ''t''))
       (delete_request (Document360Model_init ''t'') (PStr ''f1'')) = RequestException
   \<and> fst (Document360Presenter_get_all_folders unreachable (Document360Model_init ''t''))
       = Inr PNone
   \<and> error_reports (snd (Document360Presenter_get_all_folders unreachable
         (Document360Model_init ''t'')))
       = [Show_error ''Failed to fetch folders'' None (Some 200) PNone]
   \<and> error_reports (snd (Document360Presenter_create_folder unreachable ''Test''
         (Document360Model_init ''t'')))
       = [Show_error ''Failed to create folder'' None (Some 201) PNone]
   \<and> error_reports (snd (Document360Presenter_update_folder unreachable (PStr ''f1'') ''Test''
         (Document360Model_init ''t'')))
       = [Show_error ''Failed to update folder'' None (Some 200) PNone]
   \<and> error_reports (snd (Document360Presenter_delete_folder unreachable (PStr ''f1'')
         (Document360Model_init ''t'')))
       = [Show_error ''Failed to delete folder'' None (Some 204) PNone]"
  using transport_failure_descriptor
    [of unreachable "Document360Model_init ''t''" "''Test''" "PStr ''f1''"]
  by (simp add: unreachable_def error_reports_def Document360Model_init_def)

text \<open>
  C5. Update and Delete with the empty string as id fail at once: the model method
  returns \<open>(False, None)\<close> and leaves the state as it was, so no request is sent, and
  the report of the presenter has no observed status and no detail.
\<close>

theorem empty_id_fails_locally:
  "Document360Model_update_folder net (PStr []) nm s = (Inr (False, None), s)
   \<and> Document360Model_delete_folder net (PStr []) s = (Inr (False, None), s)
   \<and> Document360Presenter_update_folder net (PStr []) nm s =
       (Inr False,
        s\<lparr>console := console s @
           [Show_success [Lit ''Task 3: Updating folder name''],
            Log_request PUT [Lit (base_url s), Lit ''/'', Fmt (PStr [])] (headers s)
              (Some (PDict [(''name'', PStr nm)])),
            Log_response None,
            Show_error ''Failed to update folder'' None (Some 200) PNone]\<rparr>)
   \<and> Document360Presenter_delete_folder net (PStr []) s =
       (Inr False,
        s\<lparr>console := console s @
           [Show_success [Lit ''Task 4: Deleting folder''],
            Log_request DELETE [Lit (base_url s), Lit ''/'', Fmt (PStr [])] (headers s) None,
            Log_response None,
            Show_error ''Failed to delete folder'' None (Some 204) PNone]\<rparr>)"
  by (simp add: presenter_defs model_defs view_defs)

text \<open>
  C2. Create with status 201. With the body \<open>{"id":"abc123"}\<close> the operation succeeds
  with \<open>abc123\<close>. With the body \<open>{}\<close> it fails although the status matched. The
  claim is that the detail of this failure indicates a malformed response. The program
  has no message for a malformed body: the detail is what \<open>.get('error', ...)\<close> gives
  on the body, here the default \<open>No error details provided\<close>, the same text that a
  response with an unexpected status 202 and the body \<open>{}\<close> is reported with.
\<close>

theorem create_missing_id_detail_is_generic:
  "map detail_of (error_reports (snd (Document360Presenter_create_folder
       (responding empty_object_201) ''Test'' (Document360Model_init ''t''))))
     = [PStr ''No error details provided'']
   \<and> map detail_of (error_reports (snd (Document360Presenter_create_folder
       (responding empty_object_202) ''Test'' (Document360Model_init ''t''))))
     = [PStr ''No error details provided'']"
  by (simp add: presenter_defs model_defs view_defs remote_defs response_defs
      error_reports_def ok_def Document360Model_init_def)

text \<open>
  C2 as amended: with status 201 and the body \<open>{"id":"abc123"}\<close> Create returns
  \<open>abc123\<close>, caches it and reports the success; with status 201 and the body \<open>{}\<close> it
  returns \<open>None\<close> and reports observed status 201, expected status 201 and the detail
  \<open>No error details provided\<close>.
\<close>

theorem create_folder_status_201:
  "(net (sent s) (post_request s nm) = Returns r \<and> status_code r = 201
      \<and> json r = Some (PDict [(''id'', PStr ''abc123'')]) \<longrightarrow>
      Document360Presenter_create_folder net nm s =
        (Inr (PStr ''abc123''),
         s\<lparr>folder_id := PStr ''abc123'',
           sent := sent s @ [post_request s nm],
           console := console s @
             [Show_success [Lit ''Task 2: Creating a new folder''],
              Log_request POST [Lit (base_url s)] (headers s)
                (Some (PDict [(''name'', PStr nm)])),
              Log_response (Some r),
              Show_success [Lit ''Folder '', Lit apostrophe, Lit nm, Lit apostrophe,
                Lit '' created with ID: '', Fmt (PStr ''abc123'')]]\<rparr>))
   \<and> (net (sent s) (post_request s nm) = Returns r \<and> status_code r = 201
      \<and> json r = Some (PDict []) \<longrightarrow>
      Document360Presenter_create_folder net nm s =
        (Inr PNone,
         s\<lparr>sent := sent s @ [post_request s nm],
           console := console s @
             [Show_success [Lit ''Task 2: Creating a new folder''],
              Log_request POST [Lit (base_url s)] (headers s)
                (Some (PDict [(''name'', PStr nm)])),
              Log_response (Some r),
              Show_error ''Failed to create folder'' (Some 201) (Some 201)
                (PStr ''No error details provided'')]\<rparr>))"
  by (simp add: presenter_defs model_defs view_defs ok_def)

theorem create_folder_status_201_witness:
  "responding created_abc123_201 (sent (Document360Model_init ''t''))
       (post_request (Document360Model_init ''t'') ''Test'') = Returns created_abc123_201
   \<and> status_code created_abc123_201 = 201
   \<and> json created_abc123_201 = Some (PDict [(''id'', PStr ''abc123'')])
   \<and> fst (Document360Presenter_create_folder (responding created_abc123_201) ''Test''
         (Document360Model_init ''t'')) = Inr (PStr ''abc123'')
   \<and> responding empty_object_201 (sent (Document360Model_init ''t''))
       (post_request (Document360Model_init ''t'') ''Test'') = Returns empty_object_201
   \<and> status_code empty_object_201 = 201
   \<and> json empty_object_201 = Some (PDict [])
   \<and> fst (Document360Presenter_create_folder (responding empty_object_201) ''Test''
         (Document360Model_init ''t'')) = Inr PNone
   \<and> error_reports (snd (Document360Presenter_create_folder (responding empty_object_201) ''Test''
         (Document360Model_init ''t'')))
       = [Show_error ''Failed to create folder'' (Some 201) (Some 201)
            (PStr ''No error details provided'')]"
  using create_folder_status_201
      [of "responding created_abc123_201" "Document360Model_init ''t''" "''Test''"
        created_abc123_201]
    create_folder_status_201
      [of "responding empty_object_201" "Document360Model_init ''t''" "''Test''"
        empty_object_201]
  by (simp add: responding_def created_abc123_201_def empty_object_201_def error_reports_def
      Document360Model_init_def)

text \<open>
  C3. List with status 200 and a body that is not a list. The claim is that the
  operation fails with the detail \<open>unexpected response shape\<close>. The program has no such
  text: with the body \<open>{"not":"a list"}\<close> the detail is \<open>No error details provided\<close>.
\<close>

theorem list_shape_detail_counterexample:
  "map detail_of (error_reports (snd (Document360Presenter_get_all_folders
       (responding not_a_list_200) (Document360Model_init ''t''))))
     \<noteq> [PStr ''unexpected response shape'']"
  by (simp add: presenter_defs model_defs view_defs remote_defs response_defs
      error_reports_def ok_def Document360Model_init_def)

text \<open>
  C3 as amended: with status 200 and a decoded body that is not a list, the model method
  returns the failure \<open>(None, response)\<close>; when the body is a JSON object the report has
  observed status 200, expected status 200, and as detail the \<open>error\<close> field of the
  object, or \<open>No error details provided\<close> when it has none.
\<close>

theorem list_body_not_a_list:
  "net (sent s) (get_request s) = Returns r \<and> status_code r = 200 \<and> json r = Some data
     \<and> \<not> is_list data \<longrightarrow>
     Document360Model_get_all_folders net s
       = (Inr (PNone, Some r), s\<lparr>sent := sent s @ [get_request s]\<rparr>)
     \<and> (\<forall>kvs. data = PDict kvs \<longrightarrow>
          Document360Presenter_get_all_folders net s =
            (Inr PNone,
             s\<lparr>sent := sent s @ [get_request s],
               console := console s @
                 [Show_success [Lit ''Task 1: Fetching all folders''],
                  Log_request GET [Lit (base_url s)] (headers s) None,
                  Log_response (Some r),
                  Show_error ''Failed to fetch folders'' (Some 200) (Some 200)
                    (case map_of kvs ''error'' of
                       Some e \<Rightarrow> e
                     | None \<Rightarrow> PStr ''No error details provided'')]\<rparr>))"
  by (simp add: presenter_defs model_defs view_defs ok_def)

theorem list_body_not_a_list_witness:
  "responding not_a_list_200 (sent (Document360Model_init ''t''))
       (get_request (Document360Model_init ''t'')) = Returns not_a_list_200
   \<and> status_code not_a_list_200 = 200
   \<and> json not_a_list_200 = Some (PDict [(''not'', PStr ''a list'')])
   \<and> \<not> is_list (PDict [(''not'', PStr ''a list'')])
   \<and> fst (Document360Model_get_all_folders (responding not_a_list_200)
         (Document360Model_init ''t'')) = Inr (PNone, Some not_a_list_200)
   \<and> fst (Document360Presenter_get_all_folders (responding not_a_list_200)
         (Document360Model_init ''t'')) = Inr PNone
   \<and> error_reports (snd (Document360Presenter_get_all_folders (responding not_a_list_200)
         (Document360Model_init ''t'')))
       = [Show_error ''Failed to fetch folders'' (Some 200) (Some 200)
            (PStr ''No error details provided'')]"
  using list_body_not_a_list
      [of "responding not_a_list_200" "Document360Model_init ''t''" not_a_list_200
        "PDict [(''not'', PStr ''a list'')]"]
  by (simp add: responding_def not_a_list_200_def error_reports_def Document360Model_init_def)

text \<open>
  C10. A response with the expected status (200 for List, 201 for Create) whose body is
  not JSON: \<open>response.json()\<close> raises inside the \<open>try\<close>, the handler returns
  \<open>(None, None)\<close> as for a transport fault and the response is dropped, so the report
  has no observed status and no detail.
\<close>

theorem unparsable_body_like_transport_failure:
  "(net (sent s) (get_request s) = Returns r \<and> status_code r = 200 \<and> json r = None \<longrightarrow>
      Document360Model_get_all_folders net s = Document360Model_get_all_folders unreachable s
      \<and> Document360Model_get_all_folders net s
          = (Inr (PNone, None), s\<lparr>sent := sent s @ [get_request s]\<rparr>)
      \<and> Document360Presenter_get_all_folders net s =
          (Inr PNone,
           s\<lparr>sent := sent s @ [get_request s],
             console := console s @
               [Show_success [Lit ''Task 1: Fetching all folders''],
                Log_request GET [Lit (base_url s)] (headers s) None,
                Log_response None,
                Show_error ''Failed to fetch folders'' None (Some 200) PNone]\<rparr>))
   \<and> (net (sent s) (post_request s nm) = Returns r \<and> status_code r = 201 \<and> json r = None \<longrightarrow>
      Document360Model_create_folder net nm s = Document360Model_create_folder unreachable nm s
      \<and> Document360Model_create_folder net nm s
          = (Inr (PNone, None), s\<lparr>sent := sent s @ [post_request s nm]\<rparr>)
      \<and> Document360Presenter_create_folder net nm s =
          (Inr PNone,
           s\<lparr>sent := sent s @ [post_request s nm],
             console := console s @
               [Show_success [Lit ''Task 2: Creating a new folder''],
                Log_request POST [Lit (base_url s)] (headers s)
                  (Some (PDict [(''name'', PStr nm)])),
                Log_response None,
                Show_error ''Failed to create folder'' None (Some 201) PNone]\<rparr>))"
  by (simp add: presenter_defs model_defs view_defs unreachable_def)

theorem unparsable_body_like_transport_failure_witness:
  "responding not_json_200 (sent (Document360Model_init ''t''))
       (get_request (Document360Model_init ''t'')) = Returns not_json_200
   \<and> status_code not_json_200 = 200 \<and> json not_json_200 = None
   \<and> fst (Document360Model_get_all_folders (responding not_json_200) (Document360Model_init ''t''))
       = Inr (PNone, None)
   \<and> error_reports (snd (Document360Presenter_get_all_folders (responding not_json_200)
         (Document360Model_init ''t'')))
       = [Show_error ''Failed to fetch folders'' None (Some 200) PNone]"
  using unparsable_body_like_transport_failure
    [of "responding not_json_200" "Document360Model_init ''t''" not_json_200]
  by (simp add: responding_def not_json_200_def error_reports_def Document360Model_init_def
      Document360Model_get_all_folders_def send_def unreachable_def)

text \<open>
  C6. The claim is that a response whose status differs from the expected one is
  reported with its status and with the \<open>error\<close> field of its body, or the raw text when
  the body is not JSON. For a status from 400 to 599 the test \<open>if response\<close> fails, and
  so does \<open>response.status_code if response else None\<close>: with 404 and
  \<open>{"error":"Folder not found"}\<close> every operation reports no observed status and no
  detail, and so does List with 500 and the text \<open>internal error\<close>.
\<close>

theorem status_mismatch_detail_lost:
  "error_reports (snd (Document360Presenter_get_all_folders (responding not_found_404) s))
     = error_reports s @ [Show_error ''Failed to fetch folders'' None (Some 200) PNone]
   \<and> error_reports (snd (Document360Presenter_create_folder (responding not_found_404) nm s))
     = error_reports s @ [Show_error ''Failed to create folder'' None (Some 201) PNone]
   \<and> error_reports (snd (Document360Presenter_update_folder (responding not_found_404)
        (PStr ''f1'') nm s))
     = error_reports s @ [Show_error ''Failed to update folder'' None (Some 200) PNone]
   \<and> error_reports (snd (Document360Presenter_delete_folder (responding not_found_404)
        (PStr ''f1'') s))
     = error_reports s @ [Show_error ''Failed to delete folder'' None (Some 204) PNone]
   \<and> error_reports (snd (Document360Presenter_get_all_folders (responding internal_error_500) s))
     = error_reports s @ [Show_error ''Failed to fetch folders'' None (Some 200) PNone]"
  by (simp add: presenter_defs model_defs view_defs remote_defs response_defs
      error_reports_def ok_def)

section \<open>The cached id\<close>

text \<open>When Create gets status 201 and an object with an \<open>id\<close>, that value is cached.\<close>

lemma create_folder_caches_id:
  assumes "net (sent s) (post_request s nm) = Returns r"
    and "status_code r = 201"
    and "json r = Some (PDict kvs)"
    and "map_of kvs ''id'' = Some v"
  shows "Document360Model_create_folder net nm s =
     (Inr (v, Some r), s\<lparr>folder_id := v, sent := sent s @ [post_request s nm]\<rparr>)"
proof -
  from assms(4) have "''id'' \<in> fst ` set kvs"
    by (metis domI dom_map_of_conv_image_fst)
  with assms show ?thesis
    by (simp add: Document360Model_create_folder_def send_def)
qed

text \<open>
  C9. \<open>get_all_folders\<close>, \<open>update_folder\<close> and \<open>delete_folder\<close> leave \<open>folder_id\<close> as it
  was, whatever the remote side does; \<open>create_folder\<close> changes it only when the response
  has status 201 and its body is an object with the key \<open>id\<close>, and then to the value
  of that key.
\<close>

theorem folder_id_frame:
  "folder_id (snd (Document360Model_get_all_folders net s)) = folder_id s
   \<and> folder_id (snd (Document360Model_update_folder net fid nm s)) = folder_id s
   \<and> folder_id (snd (Document360Model_delete_folder net fid s)) = folder_id s
   \<and> (folder_id (snd (Document360Model_create_folder net nm s)) \<noteq> folder_id s \<longrightarrow>
        (\<exists>r kvs v. net (sent s) (post_request s nm) = Returns r \<and> status_code r = 201
           \<and> json r = Some (PDict kvs) \<and> map_of kvs ''id'' = Some v
           \<and> folder_id (snd (Document360Model_create_folder net nm s)) = v))"
proof (intro conjI impI)
  show "folder_id (snd (Document360Model_get_all_folders net s)) = folder_id s"
    by (simp add: Document360Model_get_all_folders_def send_def
        split: outcome.split option.split)
  show "folder_id (snd (Document360Model_update_folder net fid nm s)) = folder_id s"
    by (simp add: Document360Model_update_folder_def send_def split: outcome.split)
  show "folder_id (snd (Document360Model_delete_folder net fid s)) = folder_id s"
    by (simp add: Document360Model_delete_folder_def send_def split: outcome.split)
next
  assume changed: "folder_id (snd (Document360Model_create_folder net nm s)) \<noteq> folder_id s"
  show "\<exists>r kvs v. net (sent s) (post_request s nm) = Returns r \<and> status_code r = 201
           \<and> json r = Some (PDict kvs) \<and> map_of kvs ''id'' = Some v
           \<and> folder_id (snd (Document360Model_create_folder net nm s)) = v"
  proof (cases "net (sent s) (post_request s nm)")
    case RequestException
    with changed show ?thesis
      by (simp add: Document360Model_create_folder_def send_def)
  next
    case (Returns r)
    with changed obtain data v where
      st: "status_code r = 201" and js: "json r = Some data"
      and mem: "py_contains ''id'' data = Inr True" and get: "py_getitem data ''id'' = Inr v"
      by (auto simp: Document360Model_create_folder_def send_def
          split: if_splits option.splits sum.splits bool.splits)
    from py_contains_getitem [OF mem get] obtain kvs where
      d: "data = PDict kvs" and look: "map_of kvs ''id'' = Some v"
      by blast
    have "folder_id (snd (Document360Model_create_folder net nm s)) = v"
      using Returns st js mem get
      by (simp add: Document360Model_create_folder_def send_def)
    with Returns st js d look show ?thesis by simp
  qed
qed

theorem folder_id_frame_witness:
  "folder_id (snd (Document360Model_create_folder (responding created_abc123_201) ''Test''
       (Document360Model_init ''t''))) \<noteq> folder_id (Document360Model_init ''t'')
   \<and> (\<exists>r kvs v. responding created_abc123_201 (sent (Document360Model_init ''t''))
           (post_request (Document360Model_init ''t'') ''Test'') = Returns r
         \<and> status_code r = 201 \<and> json r = Some (PDict kvs) \<and> map_of kvs ''id'' = Some v
         \<and> folder_id (snd (Document360Model_create_folder (responding created_abc123_201) ''Test''
              (Document360Model_init ''t''))) = v)"
proof -
  have changed: "folder_id (snd (Document360Model_create_folder (responding created_abc123_201)
      ''Test'' (Document360Model_init ''t''))) \<noteq> folder_id (Document360Model_init ''t'')"
    by (simp add: model_defs remote_defs response_defs Document360Model_init_def)
  with folder_id_frame [of "responding created_abc123_201" "Document360Model_init ''t''" PNone
      "''Test''"]
  show ?thesis by blast
qed

section \<open>Exceptions that leave the model\<close>

text \<open>
  Three of the four methods of the model return a tuple whatever the remote side does.
\<close>

lemma other_methods_return:
  "(\<exists>v. fst (Document360Model_get_all_folders net s) = Inr v)
   \<and> (\<exists>v. fst (Document360Model_update_folder net fid nm s) = Inr v)
   \<and> (\<exists>v. fst (Document360Model_delete_folder net fid s) = Inr v)"
  by (auto simp: model_defs split: outcome.split option.split)

text \<open>
  C8. The claim is that no method of the model lets an exception out. In
  \<open>create_folder\<close> the test \<open>'id' in response_data\<close> is applied to whatever the body
  decodes to; \<open>get_all_folders\<close> guards its data with \<open>isinstance\<close>, \<open>create_folder\<close>
  has no such guard. With status 201 and the body \<open>null\<close> the test raises \<open>TypeError\<close>,
  which \<open>except requests.RequestException\<close> does not catch.
\<close>

theorem create_folder_raises_TypeError:
  "fst (Document360Model_create_folder (responding null_201) nm s) = Inl TypeError"
  by (simp add: model_defs remote_defs response_defs)

end
